theory Spec2Isabelle
  imports Complex_Main
begin

section \<open>Strings\<close>

text \<open>
  A JavaScript string is a sequence of code units. The strings this Worker handles are
  header values, which the Fetch interface hands out as byte strings (one code unit per
  byte), so a string is modelled as a \<^typ>\<open>string\<close>, that is a list of 8-bit characters, and
  \<open>===\<close> on two strings is equality of the two lists.
\<close>

text \<open>
  \<open>String.prototype.trim\<close> removes WhiteSpace and LineTerminator code units from both ends.
  Below 256 these are TAB, LF, VT, FF, CR, SPACE and NO-BREAK SPACE.
\<close>

definition is_whitespace :: "char \<Rightarrow> bool" where
  "is_whitespace c \<longleftrightarrow>
     c \<in> {CHR 0x09, CHR 0x0A, CHR 0x0B, CHR 0x0C, CHR 0x0D, CHR 0x20, CHR 0xA0}"

definition trim :: "string \<Rightarrow> string" where
  "trim s = rev (dropWhile is_whitespace (rev (dropWhile is_whitespace s)))"

text \<open>
  \<open>s.split(sep)\<close> for a separator of one character: the pieces between the occurrences of
  the separator, in order. There is always at least one piece (\<open>''.split(';')\<close> is
  \<open>['']\<close>), so the empty-list branch below is never taken.
\<close>

fun split :: "char \<Rightarrow> string \<Rightarrow> string list" where
  "split sep [] = [[]]"
| "split sep (c # cs) =
     (if c = sep then [] # split sep cs
      else (case split sep cs of
              [] \<Rightarrow> [[c]]
            | p # ps \<Rightarrow> (c # p) # ps))"

text \<open>\<open>parts.join(sep)\<close>: the pieces with the separator between neighbours.\<close>

fun join :: "char \<Rightarrow> string list \<Rightarrow> string" where
  "join sep [] = []"
| "join sep [p] = p"
| "join sep (p # q # ps) = p @ sep # join sep (q # ps)"

section \<open>The cookie jar\<close>

text \<open>
  \<open>const cookies = {}\<close> is an ordinary object, used as a dictionary from cookie names to
  cookie values. Its own properties are modelled as a map. The object inherits from
  \<open>Object.prototype\<close>, and that matters for one key: \<open>__proto__\<close> is an accessor
  property of \<open>Object.prototype\<close>, so the assignment \<open>cookies['__proto__'] = value\<close> calls
  its setter, and the setter returns without doing anything when the value is neither an
  object nor \<open>null\<close>. The values stored by \<open>parseCookies\<close> are strings, so such an
  assignment leaves the object as it was. Every other inherited property is a writable
  data property, and assigning to its name creates an own property as usual. The handler
  reads the one key \<open>CF_Authorization\<close>, which \<open>Object.prototype\<close> does not have, so
  that read gives the own property or \<open>undefined\<close> (\<open>None\<close>).
\<close>

type_synonym cookie_jar = "string \<rightharpoonup> string"

definition set_property :: "cookie_jar \<Rightarrow> string \<Rightarrow> string \<Rightarrow> cookie_jar" where
  "set_property obj name v = (if name = ''__proto__'' then obj else obj(name \<mapsto> v))"

text \<open>
  The body of the \<open>forEach\<close> callback of \<open>parseCookies\<close>, as a step on the jar:
  \<^verbatim>\<open>
      const parts = cookie.trim().split('=');
      const name = parts[0];
      const value = parts.slice(1).join('=');
      if (name) { cookies[name] = value; }
  \<close>
\<close>

definition parseCookie :: "cookie_jar \<Rightarrow> string \<Rightarrow> cookie_jar" where
  "parseCookie cookies cookie =
     (case split CHR ''='' (trim cookie) of
        [] \<Rightarrow> cookies
      | name # rest \<Rightarrow>
          (let v = join CHR ''='' rest
           in if name \<noteq> [] then set_property cookies name v else cookies))"

definition parseCookies :: "string \<Rightarrow> cookie_jar" where
  "parseCookies cookieHeader =
     (if cookieHeader \<noteq> []
      then foldl parseCookie Map.empty (split CHR '';'' cookieHeader)
      else Map.empty)"

section \<open>Values of the identity record\<close>

text \<open>
  The value that \<open>await identityResponse.json()\<close> produces, and the values of its
  properties. An object is the list of its members in the order of the JSON text; where
  a key occurs twice the later member is the one kept. Of a number the handler observes
  only whether it is zero.
\<close>

datatype js_value =
    Undefined
  | Null
  | Bool bool
  | Num rat
  | Str string
  | Arr "js_value list"
  | Obj "(string \<times> js_value) list"

text \<open>
  \<open>identityData.ip\<close>. Reading a property of \<open>null\<close> or \<open>undefined\<close> throws a TypeError
  (\<open>None\<close>). An object gives its member \<open>ip\<close>, or \<open>undefined\<close> when it has none; arrays,
  strings, numbers and booleans have no property of that name.
\<close>

fun get_ip :: "js_value \<Rightarrow> js_value option" where
  "get_ip Undefined = None"
| "get_ip Null = None"
| "get_ip (Obj members) =
     Some (case map_of (rev members) ''ip'' of None \<Rightarrow> Undefined | Some v \<Rightarrow> v)"
| "get_ip _ = Some Undefined"

text \<open>\<open>!v\<close> is true exactly when \<open>v\<close> is not truthy.\<close>

fun truthy :: "js_value \<Rightarrow> bool" where
  "truthy Undefined = False"
| "truthy Null = False"
| "truthy (Bool b) = b"
| "truthy (Num x) = (x \<noteq> 0)"
| "truthy (Str s) = (s \<noteq> [])"
| "truthy (Arr _) = True"
| "truthy (Obj _) = True"

text \<open>\<open>clientIP === identityIP\<close> with a string on the left: no conversion takes place.\<close>

fun strict_equals :: "string \<Rightarrow> js_value \<Rightarrow> bool" where
  "strict_equals s (Str t) = (s = t)"
| "strict_equals s _ = False"

text \<open>
  The template literal of the mismatch log line converts \<open>identityIP\<close> to a string.
  That conversion throws a TypeError for an object with a member named \<open>toString\<close> (the
  member is not callable, and \<open>valueOf\<close> gives no primitive). An array is converted by
  \<open>Array.prototype.join\<close>, which converts each element other than \<open>null\<close> and
  \<open>undefined\<close> in turn: it throws when one of them throws, and it throws a RangeError
  when the arrays are nested so deeply that the call stack runs out. How deep that is
  depends on the engine, so the first argument says for which arrays (given by their
  elements) the stack runs out. Strings, numbers and booleans are converted without a
  call and never throw.
\<close>

fun toString_throws :: "(js_value list \<Rightarrow> bool) \<Rightarrow> js_value \<Rightarrow> bool" where
  "toString_throws exhausts (Obj members) = (''toString'' \<in> fst ` set members)"
| "toString_throws exhausts (Arr elements) =
     (exhausts elements
      \<or> list_ex (\<lambda>v. v \<noteq> Null \<and> v \<noteq> Undefined \<and> toString_throws exhausts v) elements)"
| "toString_throws exhausts _ = False"

section \<open>Requests, responses and the environment\<close>

text \<open>
  The inbound request: its URL with the hostname that \<open>new URL(request.url)\<close> gives, its
  method, its headers as \<open>request.headers.get\<close> answers (\<open>None\<close> is \<open>null\<close>), and its body.
  The URL of a request parses, and a header value that arrived over HTTP holds no NUL, CR
  or LF, so neither \<open>new URL\<close> nor \<open>identityHeaders.append\<close>, which is given a part of
  the inbound Cookie header after \<open>CF_Authorization=\<close>, throws; these two steps have no
  failure branch in the model.
\<close>

record request =
  url :: string
  hostname :: string
  "method" :: string
  headers :: "string \<rightharpoonup> string"
  body :: string

record response =
  status :: nat
  response_headers :: "(string \<times> string) list"
  response_body :: string

text \<open>\<open>new Response(body, { status })\<close>: a string body gets the text content type.\<close>

definition new_Response :: "string \<Rightarrow> nat \<Rightarrow> response" where
  "new_Response b st =
     \<lparr>status = st,
      response_headers = [(''content-type'', ''text/plain;charset=UTF-8'')],
      response_body = b\<rparr>"

definition ok :: "response \<Rightarrow> bool" where
  "ok r \<longleftrightarrow> 200 \<le> status r \<and> status r \<le> 299"

text \<open>How an awaited promise settles.\<close>

datatype 'a promise = Resolves 'a | Rejects

text \<open>
  The two ways the handler calls \<open>fetch\<close>: with a URL and an init object (method and
  headers), and with the inbound request itself.
\<close>

datatype fetch_args =
    Fetch_init string string "(string \<times> string) list"
  | Fetch_request request

text \<open>
  The environment: how \<open>fetch\<close> settles for given arguments, how \<open>json()\<close> settles on a
  response (it rejects when the body is not JSON text), and for which arrays the
  conversion to a string runs out of call stack. All three are arbitrary.
\<close>

record env =
  fetch :: "fetch_args \<Rightarrow> response promise"
  json :: "response \<Rightarrow> js_value promise"
  join_exhausts :: "js_value list \<Rightarrow> bool"

section \<open>The request handler\<close>

definition identityUrl :: "string \<Rightarrow> string" where
  "identityUrl host = ''https://'' @ host @ ''/cdn-cgi/access/get-identity''"

definition identityRequest :: "string \<Rightarrow> string \<Rightarrow> fetch_args" where
  "identityRequest host cfAuthCookie =
     Fetch_init (identityUrl host) ''GET'' [(''Cookie'', ''CF_Authorization='' @ cfAuthCookie)]"

text \<open>
  \<open>handleRequest\<close> returns the calls of \<open>fetch\<close> it made, in order, and how the promise
  it returns settles. Inside the \<open>try\<close> block a rejected \<open>await\<close> and a thrown TypeError
  go to the \<open>catch\<close> clause, which answers 500. \<open>return fetch(request)\<close> hands the promise
  of the origin call back without awaiting it, so the handler's promise settles as that
  call does and the \<open>catch\<close> clause does not see its rejection. The lines written
  with \<open>console.log\<close> and \<open>console.error\<close> are not recorded; what is kept of them is
  that building the mismatch line can throw.
\<close>

definition handleRequest :: "env \<Rightarrow> request \<Rightarrow> fetch_args list \<times> response promise" where
  "handleRequest e request =
     (case headers request ''Cookie'' of
        None \<Rightarrow> ([], Resolves (new_Response ''Forbidden'' 403))
      | Some cookieHeader \<Rightarrow>
        if cookieHeader = [] then ([], Resolves (new_Response ''Forbidden'' 403))
        else
          (case parseCookies cookieHeader ''CF_Authorization'' of
             None \<Rightarrow> ([], Resolves (new_Response ''Forbidden'' 403))
           | Some cfAuthCookie \<Rightarrow>
             if cfAuthCookie = [] then ([], Resolves (new_Response ''Forbidden'' 403))
             else
               (case headers request ''CF-Connecting-IP'' of
                  None \<Rightarrow> ([], Resolves (new_Response ''Forbidden'' 403))
                | Some clientIP \<Rightarrow>
                  if clientIP = [] then ([], Resolves (new_Response ''Forbidden'' 403))
                  else
                    (let identityCall = identityRequest (hostname request) cfAuthCookie
                     in case fetch e identityCall of
                          Rejects \<Rightarrow>
                            ([identityCall], Resolves (new_Response ''Internal Server Error'' 500))
                        | Resolves identityResponse \<Rightarrow>
                          if \<not> ok identityResponse
                          then ([identityCall], Resolves (new_Response ''Forbidden'' 403))
                          else
                            (case json e identityResponse of
                               Rejects \<Rightarrow>
                                 ([identityCall],
                                  Resolves (new_Response ''Internal Server Error'' 500))
                             | Resolves identityData \<Rightarrow>
                               (case get_ip identityData of
                                  None \<Rightarrow>
                                    ([identityCall],
                                     Resolves (new_Response ''Internal Server Error'' 500))
                                | Some identityIP \<Rightarrow>
                                  if \<not> truthy identityIP
                                  then ([identityCall],
                                        Resolves (new_Response ''Forbidden'' 403))
                                  else if strict_equals clientIP identityIP
                                  then ([identityCall, Fetch_request request],
                                        fetch e (Fetch_request request))
                                  else if toString_throws (join_exhausts e) identityIP
                                  then ([identityCall],
                                        Resolves (new_Response ''Internal Server Error'' 500))
                                  else ([identityCall],
                                        Resolves (new_Response ''Forbidden)'' 403))))))))"

section \<open>The cookie jar as the specification describes it\<close>

text \<open>
  These definitions follow the words of the specification, not the code: split the header
  on \<open>;\<close>, trim each entry, split the entry on its first \<open>=\<close> into a name and a value (an
  entry without \<open>=\<close> has the empty value), discard the entries with an empty name, and let
  the last entry of a name win. They are compared with \<open>parseCookies\<close> below.
\<close>

definition name_of :: "string \<Rightarrow> string" where
  "name_of entry = takeWhile (\<lambda>c. c \<noteq> CHR ''='') entry"

definition value_of :: "string \<Rightarrow> string" where
  "value_of entry = drop 1 (dropWhile (\<lambda>c. c \<noteq> CHR ''='') entry)"

definition named_entries :: "string list \<Rightarrow> (string \<times> string) list" where
  "named_entries entries =
     filter (\<lambda>(n, v). n \<noteq> [])
       (map (\<lambda>entry. (name_of (trim entry), value_of (trim entry))) entries)"

definition spec_jar :: "string \<Rightarrow> cookie_jar" where
  "spec_jar header = map_of (rev (named_entries (split CHR '';'' header)))"

section \<open>Sample requests and stubbed environments\<close>

definition sample_request :: request where
  "sample_request =
     \<lparr>url = ''https://app.example.com/reports?id=7'',
      hostname = ''app.example.com'',
      method = ''POST'',
      headers = map_of [(''Cookie'', ''a=1; CF_Authorization=tok123; b=x=y''),
                        (''CF-Connecting-IP'', ''203.0.113.7'')],
      body = ''payload''\<rparr>"

definition with_headers :: "(string \<times> string) list \<Rightarrow> request" where
  "with_headers hs = sample_request\<lparr>headers := map_of hs\<rparr>"

definition lookup_response :: "nat \<Rightarrow> response" where
  "lookup_response st =
     \<lparr>status = st,
      response_headers = [(''content-type'', ''application/json'')],
      response_body = []\<rparr>"

definition origin_response :: response where
  "origin_response =
     \<lparr>status = 201,
      response_headers = [(''x-origin'', ''yes'')],
      response_body = ''created''\<rparr>"

text \<open>
  An environment in which the identity call settles as \<open>lookup\<close>, \<open>json()\<close> as \<open>parsed\<close> and
  the origin call as \<open>origin\<close>, and the call stack never runs out.
\<close>

definition stub_env ::
  "response promise \<Rightarrow> js_value promise \<Rightarrow> response promise \<Rightarrow> env" where
  "stub_env lookup parsed origin =
     \<lparr>fetch = (\<lambda>args. case args of Fetch_init _ _ _ \<Rightarrow> lookup | Fetch_request _ \<Rightarrow> origin),
      json = (\<lambda>_. parsed),
      join_exhausts = (\<lambda>_. False)\<rparr>"

text \<open>An environment in which every call fails.\<close>

definition failing_env :: env where
  "failing_env = stub_env Rejects Rejects Rejects"

definition sample_lookup :: fetch_args where
  "sample_lookup =
     Fetch_init ''https://app.example.com/cdn-cgi/access/get-identity'' ''GET''
       [(''Cookie'', ''CF_Authorization=tok123'')]"

lemmas eval_defs =
  parseCookies_def parseCookie_def trim_def is_whitespace_def set_property_def
  sample_request_def with_headers_def lookup_response_def origin_response_def stub_env_def
  sample_lookup_def identityRequest_def identityUrl_def ok_def

section \<open>Splitting and joining\<close>

lemma split_not_Nil: "split sep s \<noteq> []"
  by (induction s) (auto split: list.splits)

lemma hd_split: "hd (split sep s) = takeWhile (\<lambda>c. c \<noteq> sep) s"
  by (induction s) (auto split: list.splits simp: split_not_Nil)

lemma join_split: "join sep (split sep s) = s"
proof (induction s)
  case Nil
  show ?case by simp
next
  case (Cons c cs)
  obtain p ps where ps: "split sep cs = p # ps"
    using split_not_Nil [of sep cs] by (cases "split sep cs") auto
  show ?case
  proof (cases "c = sep")
    case True
    with Cons ps show ?thesis by simp
  next
    case False
    with Cons ps show ?thesis by (cases ps) auto
  qed
qed

text \<open>
  Splitting on every \<open>=\<close> and joining all pieces but the first with \<open>=\<close> again gives what
  follows the first \<open>=\<close>.
\<close>

lemma join_tl_split: "join sep (tl (split sep s)) = drop 1 (dropWhile (\<lambda>c. c \<noteq> sep) s)"
proof (induction s)
  case Nil
  show ?case by simp
next
  case (Cons c cs)
  show ?case
  proof (cases "c = sep")
    case True
    then show ?thesis by (simp add: join_split)
  next
    case False
    obtain p ps where ps: "split sep cs = p # ps"
      using split_not_Nil [of sep cs] by (cases "split sep cs") auto
    with False Cons show ?thesis by simp
  qed
qed

lemma split_name_rest: "split CHR ''='' entry = name_of entry # tl (split CHR ''='' entry)"
  using hd_split [of "CHR ''=''" entry] split_not_Nil [of "CHR ''=''" entry]
  by (cases "split CHR ''='' entry") (auto simp: name_of_def)

section \<open>What \<open>parseCookies\<close> computes\<close>

lemma parseCookie_eq:
  "parseCookie cookies cookie =
     (if name_of (trim cookie) \<noteq> []
      then set_property cookies (name_of (trim cookie)) (value_of (trim cookie))
      else cookies)"
proof -
  have parts: "split CHR ''='' (trim cookie) =
      name_of (trim cookie) # tl (split CHR ''='' (trim cookie))"
    by (rule split_name_rest)
  have val: "join CHR ''='' (tl (split CHR ''='' (trim cookie))) = value_of (trim cookie)"
    by (simp add: join_tl_split value_of_def)
  from parts have "parseCookie cookies cookie =
      (case name_of (trim cookie) # tl (split CHR ''='' (trim cookie)) of
         [] \<Rightarrow> cookies
       | name # rest \<Rightarrow>
           (let v = join CHR ''='' rest
            in if name \<noteq> [] then set_property cookies name v else cookies))"
    unfolding parseCookie_def by simp
  with val show ?thesis by simp
qed

lemma foldl_parseCookie:
  "foldl parseCookie m cs n =
     (if n = ''__proto__'' then m n
      else case map_of (rev (named_entries cs)) n of None \<Rightarrow> m n | Some v \<Rightarrow> Some v)"
proof (induction cs arbitrary: m)
  case Nil
  show ?case by (simp add: named_entries_def)
next
  case (Cons c cs)
  show ?case
    unfolding foldl_Cons Cons.IH
    by (auto simp: parseCookie_eq set_property_def named_entries_def map_add_def
        split: option.splits)
qed

text \<open>
  \<open>parseCookies\<close> builds the jar of the specification, except that it never stores the
  name \<open>__proto__\<close>.
\<close>

lemma parseCookies_spec_jar:
  "parseCookies header n = (if n = ''__proto__'' then None else spec_jar header n)"
proof (cases "header = []")
  case True
  then show ?thesis
    by (simp add: parseCookies_def spec_jar_def named_entries_def trim_def name_of_def)
next
  case False
  then show ?thesis
    by (simp add: parseCookies_def foldl_parseCookie spec_jar_def split: option.splits)
qed

lemma parseCookies_Some_nonempty: "parseCookies h n = Some v \<Longrightarrow> h \<noteq> []"
  by (auto simp: parseCookies_def)

text \<open>The example of the specification: the token is found and \<open>b\<close> keeps \<open>x=y\<close>.\<close>

lemma parseCookies_example:
  "parseCookies ''a=1; CF_Authorization=tok123; b=x=y'' ''CF_Authorization'' = Some ''tok123''
   \<and> parseCookies ''a=1; CF_Authorization=tok123; b=x=y'' ''b'' = Some ''x=y''
   \<and> parseCookies ''a=1; CF_Authorization=tok123; b=x=y'' ''a'' = Some ''1''"
  by (simp add: eval_defs)

lemma parseCookies_last_wins_example:
  "parseCookies ''d=1;d=2; =dropped; bare '' ''d'' = Some ''2''
   \<and> parseCookies ''d=1;d=2; =dropped; bare '' [] = None
   \<and> parseCookies ''d=1;d=2; =dropped; bare '' ''bare'' = Some []"
  by (simp add: eval_defs)

section \<open>Cookie parsing (C5)\<close>

text \<open>
  C5. The claim: for every Cookie header, \<open>parseCookies\<close> builds the jar by splitting on
  \<open>;\<close>, trimming each entry and splitting on the first \<open>=\<close>; entries with an empty name
  are discarded, the last occurrence of a name wins, and an entry without \<open>=\<close> maps its
  name to the empty value. By \<open>parseCookies_spec_jar\<close> the code does so for every name but
  one. For the header \<open>__proto__=x\<close> the specification's jar maps the (non-empty) name
  \<open>__proto__\<close> to \<open>x\<close>, and a bare \<open>__proto__\<close> to the empty value, while the object that
  \<open>parseCookies\<close> returns has no such entry: the assignment \<open>cookies[name] = value\<close> is
  swallowed by the inherited setter. The function's own documentation promises an object
  mapping cookie names to their values.
\<close>

theorem parseCookies_loses_proto_cookie:
  "parseCookies ''__proto__=x'' ''__proto__'' = None
   \<and> spec_jar ''__proto__=x'' ''__proto__'' = Some ''x''
   \<and> parseCookies ''a=1; __proto__'' ''__proto__'' = None
   \<and> spec_jar ''a=1; __proto__'' ''__proto__'' = Some []"
  by (simp add: eval_defs spec_jar_def named_entries_def name_of_def value_of_def)

section \<open>Requests without credentials (C6, C10)\<close>

text \<open>
  C6. A request without a Cookie header, or whose Cookie header has no \<open>CF_Authorization\<close>
  cookie, or without a \<open>CF-Connecting-IP\<close> header, is answered with status 403 and body
  \<open>Forbidden\<close>, and no call of \<open>fetch\<close> is made.
\<close>

theorem missing_credentials_forbidden:
  assumes "headers request ''Cookie'' = None
           \<or> (\<exists>h. headers request ''Cookie'' = Some h
                  \<and> parseCookies h ''CF_Authorization'' = None)
           \<or> headers request ''CF-Connecting-IP'' = None"
  shows "handleRequest e request = ([], Resolves (new_Response ''Forbidden'' 403))"
  using assms
  by (auto simp: handleRequest_def split: option.splits)

theorem missing_credentials_forbidden_witness:
  "handleRequest failing_env (with_headers [(''CF-Connecting-IP'', ''203.0.113.7'')]) =
     ([], Resolves (new_Response ''Forbidden'' 403))
   \<and> handleRequest failing_env (with_headers [(''Cookie'', ''a=1; b=2''),
                                     (''CF-Connecting-IP'', ''203.0.113.7'')]) =
     ([], Resolves (new_Response ''Forbidden'' 403))
   \<and> handleRequest failing_env (with_headers [(''Cookie'', ''CF_Authorization=tok123'')]) =
     ([], Resolves (new_Response ''Forbidden'' 403))
   \<and> status (new_Response ''Forbidden'' 403) = 403
   \<and> response_body (new_Response ''Forbidden'' 403) = ''Forbidden''"
proof -
  have no_cookie: "headers (with_headers [(''CF-Connecting-IP'', ''203.0.113.7'')]) ''Cookie''
      = None"
    by (simp add: eval_defs)
  have no_token: "\<exists>h. headers (with_headers [(''Cookie'', ''a=1; b=2''),
        (''CF-Connecting-IP'', ''203.0.113.7'')]) ''Cookie'' = Some h
      \<and> parseCookies h ''CF_Authorization'' = None"
    by (simp add: eval_defs)
  have no_ip: "headers (with_headers [(''Cookie'', ''CF_Authorization=tok123'')])
      ''CF-Connecting-IP'' = None"
    by (simp add: eval_defs)
  show ?thesis
    using missing_credentials_forbidden [of _ failing_env, OF disjI1, OF no_cookie]
      missing_credentials_forbidden [of _ failing_env, OF disjI2, OF disjI1, OF no_token]
      missing_credentials_forbidden [of _ failing_env, OF disjI2, OF disjI2, OF no_ip]
    by (simp add: new_Response_def)
qed

text \<open>
  C10, as the code has it. In the jar the last entry of a name wins. When the jar parsed
  from the Cookie header holds \<open>CF_Authorization\<close> with the empty value, that is when the
  last \<open>CF_Authorization\<close> entry of the header has an empty value, as in the headers
  \<open>CF_Authorization=\<close> and \<open>CF_Authorization\<close>, the request is answered with status 403
  and body \<open>Forbidden\<close> and no call of \<open>fetch\<close> is made: the same answer as for the
  request without its Cookie header.
\<close>

theorem empty_token_forbidden:
  assumes "headers request ''Cookie'' = Some cookieHeader"
    and "parseCookies cookieHeader ''CF_Authorization'' = Some []"
  shows "handleRequest e request = ([], Resolves (new_Response ''Forbidden'' 403))
         \<and> status (new_Response ''Forbidden'' 403) = 403
         \<and> response_body (new_Response ''Forbidden'' 403) = ''Forbidden''
         \<and> handleRequest e request =
             handleRequest e (request\<lparr>headers := (headers request)(''Cookie'' := None)\<rparr>)"
  using assms
  by (simp add: handleRequest_def new_Response_def)

theorem empty_token_forbidden_witness:
  "handleRequest failing_env (with_headers [(''Cookie'', ''CF_Authorization=''),
                                            (''CF-Connecting-IP'', ''203.0.113.7'')]) =
     ([], Resolves (new_Response ''Forbidden'' 403))
   \<and> handleRequest failing_env (with_headers [(''Cookie'', ''a=1; CF_Authorization''),
                                              (''CF-Connecting-IP'', ''203.0.113.7'')]) =
     ([], Resolves (new_Response ''Forbidden'' 403))
   \<and> handleRequest failing_env
        (with_headers [(''Cookie'', ''CF_Authorization=tok123; CF_Authorization=''),
                       (''CF-Connecting-IP'', ''203.0.113.7'')]) =
     ([], Resolves (new_Response ''Forbidden'' 403))"
proof -
  have with_equals: "parseCookies ''CF_Authorization='' ''CF_Authorization'' = Some []"
    by (simp add: eval_defs)
  have bare: "parseCookies ''a=1; CF_Authorization'' ''CF_Authorization'' = Some []"
    by (simp add: eval_defs)
  have last_empty:
    "parseCookies ''CF_Authorization=tok123; CF_Authorization='' ''CF_Authorization'' = Some []"
    by (simp add: eval_defs)
  have cookie: "headers (with_headers [(''Cookie'', h), (''CF-Connecting-IP'', ''203.0.113.7'')])
      ''Cookie'' = Some h" for h
    by (simp add: eval_defs)
  show ?thesis
    using empty_token_forbidden [OF cookie with_equals, of failing_env]
      empty_token_forbidden [OF cookie bare, of failing_env]
      empty_token_forbidden [OF cookie last_empty, of failing_env]
    by simp
qed

text \<open>
  The claim C10 as written speaks of every Cookie header that contains a
  \<open>CF_Authorization\<close> entry with an empty value. The header
  \<open>CF_Authorization=; CF_Authorization=tok123\<close> contains one, followed by an entry of the
  same name with the value \<open>tok123\<close>. The later entry is the one in the jar, so the token
  is \<open>tok123\<close> and the identity lookup is made (here it fails, and the answer is 500).
\<close>

theorem empty_entry_overridden_lookup_made:
  "(''CF_Authorization'', []) \<in>
     set (named_entries (split CHR '';'' ''CF_Authorization=; CF_Authorization=tok123''))
   \<and> parseCookies ''CF_Authorization=; CF_Authorization=tok123'' ''CF_Authorization'' =
     Some ''tok123''
   \<and> handleRequest failing_env
        (with_headers [(''Cookie'', ''CF_Authorization=; CF_Authorization=tok123''),
                       (''CF-Connecting-IP'', ''203.0.113.7'')]) =
     ([sample_lookup], Resolves (new_Response ''Internal Server Error'' 500))"
  by (simp add: handleRequest_def Let_def failing_env_def eval_defs
      named_entries_def name_of_def value_of_def)

section \<open>The identity lookup (C8, C7, C1)\<close>

lemma sample_cookie: "headers sample_request ''Cookie'' = Some ''a=1; CF_Authorization=tok123; b=x=y''"
  by (simp add: eval_defs)

lemma sample_token:
  "parseCookies ''a=1; CF_Authorization=tok123; b=x=y'' ''CF_Authorization'' = Some ''tok123''"
  by (simp add: eval_defs)

lemma sample_clientIP: "headers sample_request ''CF-Connecting-IP'' = Some ''203.0.113.7''"
  by (simp add: eval_defs)

lemma sample_identityRequest: "identityRequest (hostname sample_request) ''tok123'' = sample_lookup"
  by (simp add: eval_defs)

text \<open>
  C8. A request that passes the extraction of the token and of the client address makes
  exactly one identity call: the first call of \<open>fetch\<close> is a GET of
  \<open>https://{hostname}/cdn-cgi/access/get-identity\<close>, for the hostname of the inbound
  request, with the one header \<open>Cookie: CF_Authorization={token}\<close>. It is not repeated: the
  only call that can follow it is the forwarding of the request to the origin.
\<close>

theorem one_identity_lookup:
  assumes "headers request ''Cookie'' = Some cookieHeader"
    and "parseCookies cookieHeader ''CF_Authorization'' = Some cfAuthCookie"
    and "cfAuthCookie \<noteq> []"
    and "headers request ''CF-Connecting-IP'' = Some clientIP"
    and "clientIP \<noteq> []"
  shows "\<exists>rest. fst (handleRequest e request) =
           Fetch_init (''https://'' @ hostname request @ ''/cdn-cgi/access/get-identity'')
             ''GET'' [(''Cookie'', ''CF_Authorization='' @ cfAuthCookie)] # rest
           \<and> (rest = [] \<or> rest = [Fetch_request request])"
  using assms parseCookies_Some_nonempty [OF assms(2)]
  by (simp add: handleRequest_def Let_def identityRequest_def identityUrl_def
      split: promise.splits option.splits)

theorem one_identity_lookup_witness:
  "\<exists>rest. fst (handleRequest failing_env sample_request) =
      Fetch_init ''https://app.example.com/cdn-cgi/access/get-identity''
        ''GET'' [(''Cookie'', ''CF_Authorization=tok123'')] # rest
      \<and> (rest = [] \<or> rest = [Fetch_request sample_request])"
  using one_identity_lookup [OF sample_cookie sample_token _ sample_clientIP, of failing_env]
  by (simp add: sample_request_def)

text \<open>
  C7. When the identity call itself rejects, the request is answered with status 500 and
  body \<open>Internal Server Error\<close>, which is not a 403.
\<close>

theorem transport_failure_500:
  assumes "headers request ''Cookie'' = Some cookieHeader"
    and "parseCookies cookieHeader ''CF_Authorization'' = Some cfAuthCookie"
    and "cfAuthCookie \<noteq> []"
    and "headers request ''CF-Connecting-IP'' = Some clientIP"
    and "clientIP \<noteq> []"
    and "fetch e (identityRequest (hostname request) cfAuthCookie) = Rejects"
  shows "handleRequest e request =
           ([identityRequest (hostname request) cfAuthCookie],
            Resolves (new_Response ''Internal Server Error'' 500))
         \<and> status (new_Response ''Internal Server Error'' 500) = 500
         \<and> response_body (new_Response ''Internal Server Error'' 500) = ''Internal Server Error''"
  using assms parseCookies_Some_nonempty [OF assms(2)]
  by (simp add: handleRequest_def Let_def new_Response_def)

theorem transport_failure_500_witness:
  "handleRequest failing_env sample_request =
     ([sample_lookup], Resolves (new_Response ''Internal Server Error'' 500))"
proof -
  have "fetch failing_env (identityRequest (hostname sample_request) ''tok123'') = Rejects"
    by (simp add: failing_env_def eval_defs)
  from transport_failure_500 [OF sample_cookie sample_token _ sample_clientIP _ this]
  show ?thesis
    by (simp add: sample_identityRequest)
qed

text \<open>
  C1, as the code has it. For a request that reaches the identity call, and a call that
  returns a response: a response outside 200..299 is answered with 403 \<open>Forbidden\<close>; a
  body that parses to a value other than \<open>null\<close> whose \<open>ip\<close> is missing or falsy (the
  empty string among them) is answered with 403 \<open>Forbidden\<close>, in particular the body
  \<open>{}\<close>; a body that is missing or does not parse, and the body \<open>null\<close>, are answered
  with 500 \<open>Internal Server Error\<close>. Each of them is a response.
\<close>

theorem identity_failures_answered:
  assumes "headers request ''Cookie'' = Some cookieHeader"
    and "parseCookies cookieHeader ''CF_Authorization'' = Some cfAuthCookie"
    and "cfAuthCookie \<noteq> []"
    and "headers request ''CF-Connecting-IP'' = Some clientIP"
    and "clientIP \<noteq> []"
    and "fetch e (identityRequest (hostname request) cfAuthCookie) = Resolves identityResponse"
  shows "(\<not> ok identityResponse \<longrightarrow>
            handleRequest e request =
              ([identityRequest (hostname request) cfAuthCookie],
               Resolves (new_Response ''Forbidden'' 403)))
         \<and> (ok identityResponse \<and> json e identityResponse = Resolves identityData
              \<and> get_ip identityData = Some identityIP \<and> \<not> truthy identityIP \<longrightarrow>
            handleRequest e request =
              ([identityRequest (hostname request) cfAuthCookie],
               Resolves (new_Response ''Forbidden'' 403)))
         \<and> (ok identityResponse \<and> json e identityResponse = Resolves (Obj []) \<longrightarrow>
            handleRequest e request =
              ([identityRequest (hostname request) cfAuthCookie],
               Resolves (new_Response ''Forbidden'' 403)))
         \<and> (ok identityResponse
              \<and> (json e identityResponse = Rejects \<or> json e identityResponse = Resolves Null) \<longrightarrow>
            handleRequest e request =
              ([identityRequest (hostname request) cfAuthCookie],
               Resolves (new_Response ''Internal Server Error'' 500)))"
  using assms parseCookies_Some_nonempty [OF assms(2)]
  by (auto simp: handleRequest_def Let_def)

theorem identity_failures_answered_witness:
  "handleRequest (stub_env (Resolves (lookup_response 401)) Rejects Rejects) sample_request =
     ([sample_lookup], Resolves (new_Response ''Forbidden'' 403))
   \<and> handleRequest
        (stub_env (Resolves (lookup_response 200)) (Resolves (Obj [(''ip'', Str [])])) Rejects)
        sample_request =
     ([sample_lookup], Resolves (new_Response ''Forbidden'' 403))
   \<and> handleRequest (stub_env (Resolves (lookup_response 200)) (Resolves (Obj [])) Rejects)
        sample_request =
     ([sample_lookup], Resolves (new_Response ''Forbidden'' 403))
   \<and> handleRequest (stub_env (Resolves (lookup_response 200)) (Resolves Null) Rejects)
        sample_request =
     ([sample_lookup], Resolves (new_Response ''Internal Server Error'' 500))
   \<and> handleRequest (stub_env (Resolves (lookup_response 204)) Rejects Rejects) sample_request =
     ([sample_lookup], Resolves (new_Response ''Internal Server Error'' 500))"
proof -
  have token: "''tok123'' \<noteq> []" and ip: "''203.0.113.7'' \<noteq> []"
    by simp_all
  have lookup: "fetch (stub_env (Resolves (lookup_response st)) parsed origin)
      (identityRequest (hostname sample_request) ''tok123'') = Resolves (lookup_response st)"
    for st parsed origin
    by (simp add: eval_defs)
  note answered = identity_failures_answered
    [OF sample_cookie sample_token token sample_clientIP ip lookup]
  have "\<not> ok (lookup_response 401)" and "ok (lookup_response 200)"
    and "ok (lookup_response 204)"
    by (simp_all add: eval_defs)
  then show ?thesis
    using answered [of 401 Rejects Rejects]
      answered [of 200 "Resolves (Obj [(''ip'', Str [])])" Rejects
        "Obj [(''ip'', Str [])]" "Str []"]
      answered [of 200 "Resolves (Obj [])" Rejects]
      answered [of 200 "Resolves Null" Rejects]
      answered [of 204 Rejects Rejects]
    by (simp add: sample_identityRequest stub_env_def)
qed

text \<open>
  The claim C1 as written also sends an unparseable body to 403. A 200 response whose
  \<open>json()\<close> rejects is answered with 500.
\<close>

theorem unparseable_identity_body_500:
  "fetch (stub_env (Resolves (lookup_response 200)) Rejects Rejects) sample_lookup =
     Resolves (lookup_response 200)
   \<and> ok (lookup_response 200)
   \<and> json (stub_env (Resolves (lookup_response 200)) Rejects Rejects) (lookup_response 200) =
     Rejects
   \<and> handleRequest (stub_env (Resolves (lookup_response 200)) Rejects Rejects) sample_request =
     ([sample_lookup], Resolves (new_Response ''Internal Server Error'' 500))
   \<and> status (new_Response ''Internal Server Error'' 500) \<noteq> 403"
  by (simp add: handleRequest_def Let_def new_Response_def eval_defs)

section \<open>The comparison of the addresses (C4, C3, C9)\<close>

lemma sample_lookup_resolves:
  "fetch (stub_env (Resolves (lookup_response st)) parsed origin)
     (identityRequest (hostname sample_request) ''tok123'') = Resolves (lookup_response st)"
  by (simp add: eval_defs)

lemma sample_json: "json (stub_env lookup (Resolves v) origin) r = Resolves v"
  by (simp add: stub_env_def)

lemma lookup_200_ok: "ok (lookup_response 200)"
  by (simp add: eval_defs)

lemma get_ip_single: "get_ip (Obj [(''ip'', Str a)]) = Some (Str a)"
  by simp

text \<open>
  C4. With a non-empty client address and a non-empty address in the identity record,
  the request is admitted (forwarded to the origin) exactly when the two strings are
  equal as lists of characters, and denied otherwise. Nothing is normalised: different
  spellings of one address, or a difference in case, are a mismatch.
\<close>

theorem comparator_exact_equality:
  assumes "headers request ''Cookie'' = Some cookieHeader"
    and "parseCookies cookieHeader ''CF_Authorization'' = Some cfAuthCookie"
    and "cfAuthCookie \<noteq> []"
    and "headers request ''CF-Connecting-IP'' = Some clientIP"
    and "clientIP \<noteq> []"
    and "fetch e (identityRequest (hostname request) cfAuthCookie) = Resolves identityResponse"
    and "ok identityResponse"
    and "json e identityResponse = Resolves identityData"
    and "get_ip identityData = Some (Str identityIP)"
    and "identityIP \<noteq> []"
  shows "strict_equals clientIP (Str identityIP) = (clientIP = identityIP)
         \<and> handleRequest e request =
             (if clientIP = identityIP
              then ([identityRequest (hostname request) cfAuthCookie, Fetch_request request],
                    fetch e (Fetch_request request))
              else ([identityRequest (hostname request) cfAuthCookie],
                    Resolves (new_Response ''Forbidden)'' 403)))"
  using assms parseCookies_Some_nonempty [OF assms(2)]
  by (simp add: handleRequest_def Let_def)

theorem comparator_exact_equality_witness:
  "handleRequest
     (stub_env (Resolves (lookup_response 200)) (Resolves (Obj [(''ip'', Str ''203.0.113.7'')]))
        (Resolves origin_response))
     sample_request =
   ([sample_lookup, Fetch_request sample_request], Resolves origin_response)
   \<and> handleRequest
     (stub_env (Resolves (lookup_response 200)) (Resolves (Obj [(''ip'', Str ''::1'')]))
        (Resolves origin_response))
     (with_headers [(''Cookie'', ''CF_Authorization=tok123''),
                    (''CF-Connecting-IP'', ''0:0:0:0:0:0:0:1'')]) =
   ([sample_lookup], Resolves (new_Response ''Forbidden)'' 403))
   \<and> handleRequest
     (stub_env (Resolves (lookup_response 200)) (Resolves (Obj [(''ip'', Str ''2001:db8::1'')]))
        (Resolves origin_response))
     (with_headers [(''Cookie'', ''CF_Authorization=tok123''),
                    (''CF-Connecting-IP'', ''2001:DB8::1'')]) =
   ([sample_lookup], Resolves (new_Response ''Forbidden)'' 403))"
proof -
  have token: "''tok123'' \<noteq> []" and ip: "''203.0.113.7'' \<noteq> []"
    by simp_all
  have cookie: "headers (with_headers [(''Cookie'', ''CF_Authorization=tok123''),
      (''CF-Connecting-IP'', a)]) ''Cookie'' = Some ''CF_Authorization=tok123''" for a
    by (simp add: eval_defs)
  have parsed: "parseCookies ''CF_Authorization=tok123'' ''CF_Authorization'' = Some ''tok123''"
    by (simp add: eval_defs)
  have client: "headers (with_headers [(''Cookie'', ''CF_Authorization=tok123''),
      (''CF-Connecting-IP'', a)]) ''CF-Connecting-IP'' = Some a" for a
    by (simp add: eval_defs)
  have lookup: "fetch (stub_env (Resolves (lookup_response 200)) parsed origin)
      (identityRequest (hostname (with_headers hs)) ''tok123'') = Resolves (lookup_response 200)"
    for parsed origin hs
    by (simp add: eval_defs)
  have same_lookup: "identityRequest (hostname (with_headers hs)) ''tok123'' = sample_lookup"
    for hs
    by (simp add: eval_defs)
  have origin: "fetch (stub_env lookup parsed (Resolves origin_response))
      (Fetch_request sample_request) = Resolves origin_response" for lookup parsed
    by (simp add: stub_env_def)
  show ?thesis
    using comparator_exact_equality [OF sample_cookie sample_token token sample_clientIP ip
        sample_lookup_resolves lookup_200_ok sample_json get_ip_single,
        of "''203.0.113.7''" "Resolves origin_response"]
      comparator_exact_equality [OF cookie parsed token client _
        lookup lookup_200_ok sample_json get_ip_single,
        of "''0:0:0:0:0:0:0:1''" "''::1''" "Resolves origin_response"]
      comparator_exact_equality [OF cookie parsed token client _
        lookup lookup_200_ok sample_json get_ip_single,
        of "''2001:DB8::1''" "''2001:db8::1''" "Resolves origin_response"]
    by (simp add: sample_identityRequest same_lookup origin)
qed




text \<open>For an \<open>ip\<close> that is a string the mismatch answer needs no further condition.\<close>

lemma mismatch_string_ip:
  assumes "headers request ''Cookie'' = Some cookieHeader"
    and "parseCookies cookieHeader ''CF_Authorization'' = Some cfAuthCookie"
    and "cfAuthCookie \<noteq> []"
    and "headers request ''CF-Connecting-IP'' = Some clientIP"
    and "clientIP \<noteq> []"
    and "fetch e (identityRequest (hostname request) cfAuthCookie) = Resolves identityResponse"
    and "ok identityResponse"
    and "json e identityResponse = Resolves identityData"
    and "get_ip identityData = Some (Str identityIP)"
    and "identityIP \<noteq> []"
    and "clientIP \<noteq> identityIP"
  shows "handleRequest e request =
           ([identityRequest (hostname request) cfAuthCookie],
            Resolves (new_Response ''Forbidden)'' 403))"
  using assms parseCookies_Some_nonempty [OF assms(2)]
  by (simp add: handleRequest_def Let_def)

text \<open>
  C9. When the client address equals the \<open>ip\<close> of the identity record, the second call
  of \<open>fetch\<close> is given the inbound request itself (its URL, method, headers and body as
  they came), and the response of the origin is the response of the handler, as it is.
\<close>

theorem admit_forwards_unchanged:
  assumes "headers request ''Cookie'' = Some cookieHeader"
    and "parseCookies cookieHeader ''CF_Authorization'' = Some cfAuthCookie"
    and "cfAuthCookie \<noteq> []"
    and "headers request ''CF-Connecting-IP'' = Some clientIP"
    and "clientIP \<noteq> []"
    and "fetch e (identityRequest (hostname request) cfAuthCookie) = Resolves identityResponse"
    and "ok identityResponse"
    and "json e identityResponse = Resolves identityData"
    and "get_ip identityData = Some (Str clientIP)"
    and "fetch e (Fetch_request request) = Resolves originResponse"
  shows "handleRequest e request =
           ([identityRequest (hostname request) cfAuthCookie, Fetch_request request],
            Resolves originResponse)"
  using assms parseCookies_Some_nonempty [OF assms(2)]
  by (simp add: handleRequest_def Let_def)

theorem admit_forwards_unchanged_witness:
  "handleRequest
     (stub_env (Resolves (lookup_response 200)) (Resolves (Obj [(''ip'', Str ''203.0.113.7'')]))
        (Resolves origin_response))
     sample_request =
   ([sample_lookup, Fetch_request sample_request], Resolves origin_response)
   \<and> status origin_response = 201
   \<and> response_headers origin_response = [(''x-origin'', ''yes'')]
   \<and> response_body origin_response = ''created''"
proof -
  have token: "''tok123'' \<noteq> []" and ip: "''203.0.113.7'' \<noteq> []"
    by simp_all
  have origin: "fetch (stub_env lookup parsed (Resolves origin_response))
      (Fetch_request sample_request) = Resolves origin_response" for lookup parsed
    by (simp add: stub_env_def)
  from admit_forwards_unchanged [OF sample_cookie sample_token token sample_clientIP ip
      sample_lookup_resolves lookup_200_ok sample_json get_ip_single origin]
  show ?thesis
    by (simp add: sample_identityRequest origin_response_def)
qed

section \<open>Every request is answered (C2)\<close>

text \<open>
  C2, as the code has it. For every inbound request and every behaviour of the identity
  lookup and of the origin call, the handler returns exactly one response, which is one
  of its three fixed responses or the response of the origin to the forwarded request,
  unless the request is forwarded to the origin and that call fails.
\<close>

theorem handleRequest_responds:
  assumes "Fetch_request request \<in> set (fst (handleRequest e request))
           \<longrightarrow> fetch e (Fetch_request request) \<noteq> Rejects"
  shows "\<exists>r. snd (handleRequest e request) = Resolves r
             \<and> (r \<in> {new_Response ''Forbidden'' 403, new_Response ''Forbidden)'' 403,
                     new_Response ''Internal Server Error'' 500}
                \<or> Fetch_request request \<in> set (fst (handleRequest e request))
                  \<and> fetch e (Fetch_request request) = Resolves r)"
proof (cases "Fetch_request request \<in> set (fst (handleRequest e request))")
  case True
  with assms obtain originResponse
    where origin: "fetch e (Fetch_request request) = Resolves originResponse"
    by (cases "fetch e (Fetch_request request)") auto
  have "snd (handleRequest e request) = fetch e (Fetch_request request)"
    using True
    by (auto simp: handleRequest_def Let_def identityRequest_def
        split: option.splits promise.splits if_splits)
  with origin True show ?thesis by simp
next
  case False
  then have "snd (handleRequest e request) \<in>
      {Resolves (new_Response ''Forbidden'' 403), Resolves (new_Response ''Forbidden)'' 403),
       Resolves (new_Response ''Internal Server Error'' 500)}"
    by (auto simp: handleRequest_def Let_def split: option.splits promise.splits if_splits)
  then show ?thesis by auto
qed

theorem handleRequest_responds_witness:
  "(\<exists>r. snd (handleRequest
              (stub_env (Resolves (lookup_response 200))
                 (Resolves (Obj [(''ip'', Str ''203.0.113.7'')])) (Resolves origin_response))
              sample_request) = Resolves r
        \<and> (r \<in> {new_Response ''Forbidden'' 403, new_Response ''Forbidden)'' 403,
                new_Response ''Internal Server Error'' 500}
           \<or> r = origin_response))
   \<and> (\<exists>r. snd (handleRequest
              (stub_env (Resolves (lookup_response 200))
                 (Resolves (Obj [(''ip'', Str ''198.51.100.9'')])) Rejects)
              sample_request) = Resolves r
        \<and> r \<in> {new_Response ''Forbidden'' 403, new_Response ''Forbidden)'' 403,
               new_Response ''Internal Server Error'' 500})"
proof -
  have origin_up: "fetch (stub_env (Resolves (lookup_response 200))
      (Resolves (Obj [(''ip'', Str ''203.0.113.7'')])) (Resolves origin_response))
      (Fetch_request sample_request) \<noteq> Rejects"
    by (simp add: stub_env_def)
  have origin_is: "fetch (stub_env (Resolves (lookup_response 200))
      (Resolves (Obj [(''ip'', Str ''203.0.113.7'')])) (Resolves origin_response))
      (Fetch_request sample_request) = Resolves r \<longleftrightarrow> r = origin_response" for r
    by (auto simp: stub_env_def)
  have not_forwarded: "Fetch_request sample_request \<notin> set (fst (handleRequest
      (stub_env (Resolves (lookup_response 200))
         (Resolves (Obj [(''ip'', Str ''198.51.100.9'')])) Rejects) sample_request))"
    by (simp add: handleRequest_def Let_def eval_defs)
  show ?thesis
    using handleRequest_responds [of sample_request
        "stub_env (Resolves (lookup_response 200))
           (Resolves (Obj [(''ip'', Str ''203.0.113.7'')])) (Resolves origin_response)"]
      handleRequest_responds [of sample_request
        "stub_env (Resolves (lookup_response 200))
           (Resolves (Obj [(''ip'', Str ''198.51.100.9'')])) Rejects"]
      origin_up origin_is not_forwarded
    by auto
qed

text \<open>
  The claim C2 as written also covers an origin call that fails. For an admitted request
  whose origin call rejects, the promise of the handler rejects: no response is produced,
  and the failure reaches the caller.
\<close>

theorem failed_origin_call_rejects:
  "fetch (stub_env (Resolves (lookup_response 200))
       (Resolves (Obj [(''ip'', Str ''203.0.113.7'')])) Rejects)
     (Fetch_request sample_request) = Rejects
   \<and> handleRequest
       (stub_env (Resolves (lookup_response 200))
          (Resolves (Obj [(''ip'', Str ''203.0.113.7'')])) Rejects)
       sample_request =
     ([sample_lookup, Fetch_request sample_request], Rejects)"
  by (simp add: handleRequest_def Let_def eval_defs)

end
